theory Spec2Isabelle
  imports Main "HOL-Library.Word" "HOL-Library.Mapping" "HOL-Library.AList_Mapping"
begin

unbundle bit_operations_syntax

section \<open>Hex payloads of the pipeline: \<open>ExtractRawBytes\<close> (drlistener.go)\<close>

text \<open>
  A Go \<open>[]byte\<close> that holds text is a \<open>string\<close> here (an Isabelle \<open>char\<close> is one
  byte); decoded payloads are lists of 8-bit words. Go returns \<open>(value, error)\<close>; the
  functions below return \<open>Inl\<close> for a non-nil error and \<open>Inr\<close> for the value.
\<close>

type_synonym byte = "8 word"

datatype decode_error =
    UnableToDecodeInput string
  | NotValidNonEmptyEvenHex string
  | HexMissingPrefix string
  | HexInvalid string

definition dquote :: char where
  "dquote = CHR 0x22"

definition fromHexChar :: "char \<Rightarrow> byte option" where
  "fromHexChar c =
     (let n = (of_char c :: nat) in
      if 48 \<le> n \<and> n \<le> 57 then Some (of_nat (n - 48))
      else if 97 \<le> n \<and> n \<le> 102 then Some (of_nat (n - 97 + 10))
      else if 65 \<le> n \<and> n \<le> 70 then Some (of_nat (n - 65 + 10))
      else None)"

fun hexDecode :: "string \<Rightarrow> byte list option" where
  "hexDecode [] = Some []"
| "hexDecode [c] = None"
| "hexDecode (a # b # cs) =
     (case (fromHexChar a, fromHexChar b, hexDecode cs) of
        (Some h, Some l, Some bs) \<Rightarrow> Some ((push_bit 4 h OR l) # bs)
      | _ \<Rightarrow> None)"

text \<open>
  Modelled from the spec: \<open>utils.TryParseHex\<close> is called by \<open>ExtractRawBytes\<close> but is
  not among the sources. The comment above \<open>ExtractRawBytes\<close> and the spec give its
  contract: a string \<open>0x<val>\<close> with \<open><val>\<close> an even-length string of hexadecimal
  digits is hex-decoded; any other string is an error.
\<close>

definition TryParseHex :: "string \<Rightarrow> decode_error + byte list" where
  "TryParseHex s =
     (if take 2 s \<noteq> ''0x'' then Inl (HexMissingPrefix s)
      else case hexDecode (drop 2 s) of
             None \<Rightarrow> Inl (HexInvalid s)
           | Some bs \<Rightarrow> Inr bs)"

definition ExtractRawBytes :: "string \<Rightarrow> decode_error + byte list" where
  "ExtractRawBytes input =
     (if length input < 2 \<or> input ! 0 \<noteq> dquote \<or> input ! (length input - 1) \<noteq> dquote
      then Inl (UnableToDecodeInput input)
      else let input' = take (length input - 1 - 1) (drop 1 input) in
        if length input' = 0 then Inr []
        else if length input' < 4 \<or> length input' mod 2 \<noteq> 0
        then Inl (NotValidNonEmptyEvenHex input')
        else TryParseHex input')"

text \<open>The judgement "surrounded by double-quote characters" of the spec.\<close>

definition quoted :: "string \<Rightarrow> bool" where
  "quoted input \<longleftrightarrow>
     2 \<le> length input \<and> hd input = dquote \<and> last input = dquote"


section \<open>The chain set (chain\_set.go)\<close>

subsection \<open>Errors\<close>

text \<open>
  \<open>errors.Wrap\<close> keeps the wrapped error and \<open>errors.Cause\<close> finds it again.
  \<open>multierr.Combine\<close> collects errors: an aggregate is the list of the errors
  combined so far, and the empty list is Go's \<open>nil\<close>.
\<close>

datatype error =
    ErrNoChains
  | ErrNoDefaultChainID
  | ErrChainNotFound int
  | ErrNoPrimaryNode
  | ErrDuplicateChain string
  | ErrLoggerNil
  | ErrConfigNil
  | ErrOther string
  | ErrWrap string error

fun Cause :: "error \<Rightarrow> error" where
  "Cause (ErrWrap msg e) = Cause e"
| "Cause e = e"

definition multierr_Combine :: "error list \<Rightarrow> error \<Rightarrow> error list" where
  "multierr_Combine err err2 = err @ [err2]"

subsection \<open>Identifiers as decimal strings\<close>

text \<open>\<open>(*big.Int).String\<close> of the Go library: the decimal digits, with a sign.\<close>

fun decimal :: "nat \<Rightarrow> string" where
  "decimal n =
     (if n < 10 then [''0123456789'' ! n]
      else decimal (n div 10) @ [''0123456789'' ! (n mod 10)])"

definition String :: "int \<Rightarrow> string" where
  "String i = (if i < 0 then CHR ''-'' # decimal (nat (- i)) else decimal (nat i))"

subsection \<open>Data\<close>

text \<open>
  \<open>types.Chain\<close> is the persisted row of a chain, \<open>types.Node\<close> that of an endpoint and
  \<open>types.ChainCfg\<close> its settings; their declarations are not among the sources, so the
  settings are kept as named values. \<open>types.Chain{}\<close> is the zero value.
\<close>

type_synonym ChainCfg = "(string \<times> string) list"

record Node =
  Name :: string
  SendOnly :: bool

record types_Chain =
  ID :: int
  Cfg :: ChainCfg
  Enabled :: bool
  Nodes :: "Node list"

definition zero_Chain :: types_Chain where
  "zero_Chain = \<lparr>ID = 0, Cfg = [], Enabled = False, Nodes = []\<rparr>"

text \<open>
  The running chain object (\<open>*chain\<close>, declared in a file that is not among the
  sources) is a type parameter \<open>'c\<close>; a pointer to it is \<open>'c option\<close>, with \<open>None\<close> for
  \<open>nil\<close>. A call of one of its methods returns an error or \<open>nil\<close>, or panics (a method
  that reads a field through a nil pointer).
\<close>

datatype call_result = Done "error option" | Panics

text \<open>
  The collaborators of the chain set, as the functions the code calls: the constructor
  \<open>newChain\<close> and the methods of the chain object, and the persistence interface
  \<open>types.ORM\<close>.
\<close>

record 'c chain_env =
  newChain :: "types_Chain \<Rightarrow> 'c option \<times> error option"
  chainStart :: "'c option \<Rightarrow> call_result"
  chainClose :: "'c option \<Rightarrow> call_result"
  chain_ID :: "'c \<Rightarrow> int"
  UpdateChain :: "int \<Rightarrow> bool \<Rightarrow> ChainCfg \<Rightarrow> types_Chain \<times> error option"
  NodesForChain :: "int \<Rightarrow> nat \<Rightarrow> nat \<Rightarrow> Node list \<times> nat \<times> error option"

record GeneralConfig =
  DefaultChainID :: "int option"
  EVMDisabled :: bool

record ChainSetOpts =
  Config :: "GeneralConfig option"
  Logger :: "unit option"

text \<open>
  The struct \<open>chainSet\<close>: the default identifier (a \<open>*big.Int\<close>, \<open>None\<close> for \<open>nil\<close>) and
  the registry, a Go map from the identifier's string to the chain pointer.
\<close>

record 'c chainSet =
  defaultID :: "int option"
  chains :: "(string, 'c option) mapping"

text \<open>What a call does besides returning: the calls it makes on its collaborators.\<close>

datatype 'c effect =
    CallUpdateChain int bool ChainCfg
  | CallNodesForChain int nat nat
  | CallNewChain types_Chain
  | CallStart "'c option"
  | CallClose "'c option"
  | Warnf string

subsection \<open>\<open>Get\<close> and \<open>Default\<close>\<close>

text \<open>
  \<open>Get\<close> and \<open>Default\<close> call each other: \<open>Get\<close> of \<open>nil\<close> is \<open>Default\<close>, which calls
  \<open>Get\<close> only with an identifier that is not \<open>nil\<close>. The \<open>Debugf\<close> of \<open>Get\<close> only logs.
\<close>

function Get :: "'c chainSet \<Rightarrow> int option \<Rightarrow> error + 'c option"
  and Default :: "'c chainSet \<Rightarrow> error + 'c option" where
  "Get cll None = Default cll"
| "Get cll (Some ident) =
     (case Mapping.lookup (chains cll) (String ident) of
        Some c \<Rightarrow> Inr c
      | None \<Rightarrow> Inl (ErrChainNotFound ident))"
| "Default cll =
     (if Mapping.is_empty (chains cll) then Inl ErrNoChains
      else case defaultID cll of
             None \<Rightarrow> Inl ErrNoDefaultChainID
           | Some d \<Rightarrow> Get cll (Some d))"
  by pat_completeness auto
termination
  by (relation "measure (\<lambda>x. case x of Inl (cll, None) \<Rightarrow> 2 | Inl (cll, Some i) \<Rightarrow> 0 | Inr cll \<Rightarrow> 1)")
     auto

subsection \<open>\<open>Configure\<close>\<close>

definition MaxInt16 :: nat where
  "MaxInt16 = 32767"

datatype configure_result = Returned types_Chain "error option" | Panicked

text \<open>
  \<open>Configure\<close> is called with an identifier that is not \<open>nil\<close>. It returns its result,
  the chain set as it leaves it, and the calls it made, in order.
\<close>

definition Configure ::
  "'c chain_env \<Rightarrow> 'c chainSet \<Rightarrow> int \<Rightarrow> bool \<Rightarrow> ChainCfg
     \<Rightarrow> configure_result \<times> 'c chainSet \<times> 'c effect list" where
  "Configure env cll ident enabled config =
     (let e1 = [CallUpdateChain ident enabled config] in
      case UpdateChain env ident enabled config of
        (dbchain, Some err) \<Rightarrow> (Returned zero_Chain (Some err), cll, e1)
      | (dbchain, None) \<Rightarrow>
     (let e2 = e1 @ [CallNodesForChain ident 0 MaxInt16] in
      case NodesForChain env ident 0 MaxInt16 of
        (nodes, count, Some err) \<Rightarrow> (Returned zero_Chain (Some err), cll, e2)
      | (nodes, count, None) \<Rightarrow>
     (let dbchain = dbchain\<lparr>Nodes := nodes\<rparr>;
          got = Get cll (Some ident);
          exists = (case got of Inr c \<Rightarrow> True | Inl err \<Rightarrow> False);
          chain = (case got of Inr c \<Rightarrow> c | Inl err \<Rightarrow> None);
          cid = String ident
      in
      if exists \<and> \<not> enabled then
        (let cll' = cll\<lparr>chains := Mapping.delete cid (chains cll)\<rparr> in
         case chainClose env chain of
           Done err \<Rightarrow> (Returned zero_Chain err, cll', e2 @ [CallClose chain])
         | Panics \<Rightarrow> (Panicked, cll', e2 @ [CallClose chain]))
      else if \<not> exists \<and> enabled then
        (case newChain env dbchain of (chain, err) \<Rightarrow>
         let e3 = e2 @ [CallNewChain dbchain];
             noPrimary = (map_option Cause err = Some ErrNoPrimaryNode);
             e4 = (if noPrimary then e3 @ [Warnf cid] else e3)
         in
         if \<not> noPrimary \<and> err \<noteq> None then (Returned zero_Chain err, cll, e4)
         else
           (case chainStart env chain of
              Panics \<Rightarrow> (Panicked, cll, e4 @ [CallStart chain])
            | Done (Some err) \<Rightarrow> (Returned zero_Chain (Some err), cll, e4 @ [CallStart chain])
            | Done None \<Rightarrow>
                (Returned dbchain None,
                 cll\<lparr>chains := Mapping.update cid chain (chains cll)\<rparr>,
                 e4 @ [CallStart chain])))
      else (Returned dbchain None, cll, e2))))"

subsection \<open>\<open>NewChainSet\<close>\<close>

definition checkOpts :: "ChainSetOpts \<Rightarrow> error option" where
  "checkOpts opts =
     (if Logger opts = None then Some ErrLoggerNil
      else if Config opts = None then Some ErrConfigNil
      else None)"

text \<open>
  The loop of \<open>NewChainSet\<close> over the persisted chains: \<open>err\<close> is the aggregate so far.
  A duplicate identifier returns at once, with no chain set.
\<close>

fun loadChains ::
  "'c chain_env \<Rightarrow> 'c chainSet \<Rightarrow> error list \<Rightarrow> types_Chain list
     \<Rightarrow> 'c chainSet option \<times> error list" where
  "loadChains env cll err [] = (Some cll, err)"
| "loadChains env cll err (dbchain # dbchains) =
     (let cid = String (ID dbchain) in
      case newChain env dbchain of
        (chain, Some err2) \<Rightarrow>
          if Cause err2 = ErrNoPrimaryNode then loadChains env cll err dbchains
          else loadChains env cll (multierr_Combine err err2) dbchains
      | (chain, None) \<Rightarrow>
          if Mapping.lookup (chains cll) cid \<noteq> None then (None, [ErrDuplicateChain cid])
          else loadChains env (cll\<lparr>chains := Mapping.update cid chain (chains cll)\<rparr>) err dbchains)"

definition NewChainSet ::
  "'c chain_env \<Rightarrow> ChainSetOpts \<Rightarrow> types_Chain list \<Rightarrow> 'c chainSet option \<times> error list" where
  "NewChainSet env opts dbchains =
     (case checkOpts opts of
        Some err \<Rightarrow> (None, [err])
      | None \<Rightarrow>
          (case Config opts of
             None \<Rightarrow> (None, [ErrConfigNil])
           | Some cfg \<Rightarrow>
               loadChains env \<lparr>defaultID = DefaultChainID cfg, chains = Mapping.empty\<rparr> [] dbchains))"


section \<open>The send-only node (package client)\<close>

datatype SendOnlyNodeState =
    SendOnlyNodeStateUndialed
  | SendOnlyNodeStateDialed
  | SendOnlyNodeStateInvalidChainID
  | SendOnlyNodeStateAlive
  | SendOnlyNodeStateUnusable
  | SendOnlyNodeStateClosed

text \<open>
  The fields of \<open>sendOnlyNode\<close> that \<open>setState\<close> and \<open>verifyLoop\<close> read and write.
  \<open>started\<close> says whether the embedded \<open>utils.StartStopOnce\<close> is in its started state.
\<close>

record sendOnlyNode =
  state :: SendOnlyNodeState
  chainID :: int
  name :: string
  started :: bool

definition setState :: "sendOnlyNode \<Rightarrow> SendOnlyNodeState \<Rightarrow> sendOnlyNode" where
  "setState s st = s\<lparr>state := st\<rparr>"

text \<open>
  Modelled from the spec: \<open>utils.StartStopOnce.IfStarted\<close> is not among the sources. It
  runs the function only if the node is still in its started lifecycle, and returns
  whether it ran it.
\<close>

definition IfStarted ::
  "sendOnlyNode \<Rightarrow> (sendOnlyNode \<Rightarrow> sendOnlyNode) \<Rightarrow> sendOnlyNode \<times> bool" where
  "IfStarted s f = (if started s then (f s, True) else (s, False))"

text \<open>
  What one pass of the \<open>select\<close> of \<open>verifyLoop\<close> receives: the stop channel, or the
  end of the backoff delay and then the answer of \<open>s.sender.ChainID\<close>. The loop is run on
  the receptions that arrive; it has returned (\<open>Exited\<close>) or is still waiting in its
  \<open>select\<close> when they are used up (\<open>Waiting\<close>). It also returns what it logged.
\<close>

datatype verify_event = ChStop | AfterBackoff "error + int"

datatype loop_status = Exited | Waiting

datatype verify_log =
    VerifyFailed error
  | ChainIDMismatch int int string
  | NodeOnline SendOnlyNodeState

fun verifyLoop ::
  "sendOnlyNode \<Rightarrow> verify_log list \<Rightarrow> verify_event list
     \<Rightarrow> sendOnlyNode \<times> loop_status \<times> verify_log list" where
  "verifyLoop s lg [] = (s, Waiting, lg)"
| "verifyLoop s lg (ChStop # evs) = (s, Exited, lg)"
| "verifyLoop s lg (AfterBackoff (Inl err) # evs) = verifyLoop s (lg @ [VerifyFailed err]) evs"
| "verifyLoop s lg (AfterBackoff (Inr chainID') # evs) =
     (if chainID' \<noteq> chainID s then
        (case IfStarted s (\<lambda>s. setState s SendOnlyNodeStateInvalidChainID) of
           (s', ok) \<Rightarrow>
             if \<not> ok then (s', Exited, lg)
             else verifyLoop s' (lg @ [ChainIDMismatch chainID' (chainID s') (name s')]) evs)
      else
        (case IfStarted s (\<lambda>s. setState s SendOnlyNodeStateAlive) of
           (s', ok) \<Rightarrow>
             if \<not> ok then (s', Exited, lg)
             else (s', Exited, lg @ [NodeOnline (state s')])))"

section \<open>The request listener (drlistener.go)\<close>

subsection \<open>Data and collaborators\<close>

type_synonym hash = "256 word"

definition ParseResultTaskName :: string where
  "ParseResultTaskName = ''parse_result''"

definition ParseErrorTaskName :: string where
  "ParseErrorTaskName = ''parse_error''"

datatype ErrType = NODE_EXCEPTION | USER_EXCEPTION

record OCR2DROracleOracleRequest =
  RequestId :: hash
  Data :: "byte list"
  Raw_TxHash :: hash

record OCR2DROracleOracleResponse =
  Response_RequestId :: hash

text \<open>
  What \<open>DecodedLog\<close> of a broadcast is: \<open>nil\<close>, one of the two events of the oracle
  contract, or a value of another type (with its type's name).
\<close>

datatype decoded_log =
    NilLog
  | OracleRequestLog OCR2DROracleOracleRequest
  | OracleResponseLog OCR2DROracleOracleResponse
  | OtherLog string

record Broadcast =
  BlockHash :: hash
  LogIndex :: nat
  DecodedLog :: decoded_log

text \<open>What the pipeline runner's \<open>Run\<close> did: the run's identifier, whether it called the
  function it was given (inside its transaction), and its error.\<close>

record run_outcome =
  run_ID :: int
  fn_called :: bool
  run_err :: "error option"

text \<open>The bytes handed to \<open>SetError\<close>: the text of an error, or decoded bytes.\<close>

datatype payload = ErrorText error | DecodeErrorText decode_error | Bytes "byte list"

text \<open>
  The collaborators of the listener, as the answers of their calls: the stop channel
  (is it closed when the drain loop looks at it for the \<open>n\<close>-th time), the log
  broadcaster (does its call fail), the plugin's request store, the pipeline runner and
  the job store.
\<close>

record dr_env =
  chStop :: "nat \<Rightarrow> bool"
  WasAlreadyConsumed_fails :: "Broadcast \<Rightarrow> error option"
  MarkConsumed_fails :: "Broadcast \<Rightarrow> error option"
  CreateRequest :: "hash \<Rightarrow> hash \<Rightarrow> error option"
  Run :: "OCR2DROracleOracleRequest \<Rightarrow> run_outcome"
  FindTaskResultByRunIDAndTaskName :: "int \<Rightarrow> string \<Rightarrow> string \<times> error option"
  SetError :: "hash \<Rightarrow> int \<Rightarrow> ErrType \<Rightarrow> payload \<Rightarrow> error option"
  SetResult :: "hash \<Rightarrow> int \<Rightarrow> byte list \<Rightarrow> error option"
  SetConfirmed :: "hash \<Rightarrow> error option"

datatype dr_call =
    CallCreateRequest hash hash
  | CallRun hash
  | CallMarkConsumed Broadcast
  | CallFindTaskResult int string
  | CallSetError hash int ErrType payload
  | CallSetResult hash int "byte list"
  | CallSetConfirmed hash
  | Errorf string
  | Warnf' string

text \<open>
  The world the listener acts on: the broadcaster's store of consumed markers, and the
  calls made and lines logged so far, in order.
\<close>

record world =
  consumed :: "Broadcast list"
  calls :: "dr_call list"

definition call :: "dr_call \<Rightarrow> world \<Rightarrow> world" where
  "call c w = w\<lparr>calls := calls w @ [c]\<rparr>"

text \<open>
  Modelled from the spec: the marker store of \<open>log.Broadcaster\<close> is not among the
  sources. \<open>MarkConsumed\<close> records the broadcast as consumed and \<open>WasAlreadyConsumed\<close>
  reports whether it was recorded; either call may fail.
\<close>

definition WasAlreadyConsumed :: "dr_env \<Rightarrow> world \<Rightarrow> Broadcast \<Rightarrow> bool \<times> error option" where
  "WasAlreadyConsumed env w lb =
     (case WasAlreadyConsumed_fails env lb of
        Some err \<Rightarrow> (False, Some err)
      | None \<Rightarrow> (lb \<in> set (consumed w), None))"

definition MarkConsumed :: "dr_env \<Rightarrow> world \<Rightarrow> Broadcast \<Rightarrow> world \<times> error option" where
  "MarkConsumed env w lb =
     (case MarkConsumed_fails env lb of
        Some err \<Rightarrow> (call (CallMarkConsumed lb) w, Some err)
      | None \<Rightarrow> (call (CallMarkConsumed lb) (w\<lparr>consumed := lb # consumed w\<rparr>), None))"

subsection \<open>The handlers\<close>

definition markLogConsumed :: "dr_env \<Rightarrow> world \<Rightarrow> Broadcast \<Rightarrow> world" where
  "markLogConsumed env w lb =
     (case MarkConsumed env w lb of
        (w', Some err) \<Rightarrow> call (Errorf ''Unable to mark log consumed'') w'
      | (w', None) \<Rightarrow> w')"

text \<open>The statement \<open>if err2 := l.pluginORM.SetError(...); err2 != nil { log }\<close>, and the
  same for \<open>SetResult\<close>.\<close>

definition doSetError :: "dr_env \<Rightarrow> world \<Rightarrow> hash \<Rightarrow> int \<Rightarrow> ErrType \<Rightarrow> payload \<Rightarrow> world" where
  "doSetError env w rid run kind p =
     (let w' = call (CallSetError rid run kind p) w in
      case SetError env rid run kind p of
        Some err2 \<Rightarrow> call (Errorf ''Call to SetError failed'') w'
      | None \<Rightarrow> w')"

definition doSetResult :: "dr_env \<Rightarrow> world \<Rightarrow> hash \<Rightarrow> int \<Rightarrow> byte list \<Rightarrow> world" where
  "doSetResult env w rid run bs =
     (let w' = call (CallSetResult rid run bs) w in
      case SetResult env rid run bs of
        Some err2 \<Rightarrow> call (Errorf ''Call to SetResult failed'') w'
      | None \<Rightarrow> w')"

definition handleOracleRequest ::
  "dr_env \<Rightarrow> world \<Rightarrow> OCR2DROracleOracleRequest \<Rightarrow> Broadcast \<Rightarrow> world" where
  "handleOracleRequest env w request lb =
     (let rid = RequestId request;
          w1 = call (CallCreateRequest rid (Raw_TxHash request)) w in
      case CreateRequest env rid (Raw_TxHash request) of
        Some err \<Rightarrow> call (Errorf ''Failed to create a DB entry for new request'') w1
      | None \<Rightarrow>
     (let out = Run env request;
          w2 = call (CallRun rid) w1;
          w3 = (if fn_called out then markLogConsumed env w2 lb else w2);
          run = run_ID out in
      case run_err out of
        Some err \<Rightarrow> call (Errorf ''Pipeline run failed'') w3
      | None \<Rightarrow>
     (let w4 = call (CallFindTaskResult run ParseResultTaskName) w3 in
      case FindTaskResultByRunIDAndTaskName env run ParseResultTaskName of
        (computationResult, Some errResult) \<Rightarrow>
          doSetError env w4 rid run NODE_EXCEPTION (ErrorText errResult)
      | (computationResult, None) \<Rightarrow>
     (case ExtractRawBytes computationResult of
        Inl errResult \<Rightarrow> call (Errorf ''Failed to extract result'') w4
      | Inr computationResult \<Rightarrow>
     (let w5 = call (CallFindTaskResult run ParseErrorTaskName) w4 in
      case FindTaskResultByRunIDAndTaskName env run ParseErrorTaskName of
        (computationError, Some errErr) \<Rightarrow>
          doSetError env w5 rid run NODE_EXCEPTION (ErrorText errErr)
      | (computationError, None) \<Rightarrow>
     (case ExtractRawBytes computationError of
        Inl errErr \<Rightarrow> call (Errorf ''Failed to extract error'') w5
      | Inr computationError \<Rightarrow>
          if length computationError \<noteq> 0
          then doSetError env w5 rid run USER_EXCEPTION (Bytes computationError)
          else doSetResult env w5 rid run computationResult))))))"

definition handleOracleResponse ::
  "dr_env \<Rightarrow> world \<Rightarrow> OCR2DROracleOracleResponse \<Rightarrow> Broadcast \<Rightarrow> world" where
  "handleOracleResponse env w response lb =
     (let w' = call (CallSetConfirmed (Response_RequestId response)) w in
      case SetConfirmed env (Response_RequestId response) of
        Some err \<Rightarrow> call (Errorf ''Setting CONFIRMED state failed'') w'
      | None \<Rightarrow> w')"

subsection \<open>The dispatch loop\<close>

text \<open>A handler started with \<open>go\<close>: which one, with its arguments.\<close>

datatype task =
    HandleOracleRequest OCR2DROracleOracleRequest Broadcast
  | HandleOracleResponse OCR2DROracleOracleResponse Broadcast

text \<open>
  The inner loop of \<open>processOracleEvents\<close>. The mailbox is the list of the records that
  \<open>Retrieve\<close> returns, oldest first; \<open>n\<close> counts the looks at the stop channel. The loop
  returns the world, the handlers it started, the records it left in the mailbox, and
  whether it ended on the stop channel (then \<open>processOracleEvents\<close> returns).
\<close>

fun drain ::
  "dr_env \<Rightarrow> nat \<Rightarrow> world \<Rightarrow> task list \<Rightarrow> Broadcast list
     \<Rightarrow> world \<times> task list \<times> Broadcast list \<times> bool" where
  "drain env n w ts [] = (w, ts, [], chStop env n)"
| "drain env n w ts (lb # mb) =
     (if chStop env n then (w, ts, lb # mb, True)
      else case WasAlreadyConsumed env w lb of
        (was, Some err) \<Rightarrow>
          drain env (Suc n)
            (call (Errorf ''Could not determine if log was already consumed'') w) ts mb
      | (was, None) \<Rightarrow>
          if was then drain env (Suc n) w ts mb
          else (case DecodedLog lb of
              NilLog \<Rightarrow>
                drain env (Suc n) (call (Errorf ''processOracleEvents: ignoring nil value'') w) ts mb
            | OracleRequestLog log \<Rightarrow>
                drain env (Suc n) w (ts @ [HandleOracleRequest log lb]) mb
            | OracleResponseLog log \<Rightarrow>
                drain env (Suc n) w (ts @ [HandleOracleResponse log lb]) mb
            | OtherLog ty \<Rightarrow>
                drain env (Suc n) (call (Warnf' ''Unexpected log type'') w) ts mb))"

text \<open>
  The handlers are goroutines. \<open>runTasks\<close> runs the handlers that one drain started, one
  after the other and to their end: the schedule in which every handler has finished
  before the next notification of the mailbox.
\<close>

fun runTask :: "dr_env \<Rightarrow> world \<Rightarrow> task \<Rightarrow> world" where
  "runTask env w (HandleOracleRequest request lb) = handleOracleRequest env w request lb"
| "runTask env w (HandleOracleResponse response lb) = handleOracleResponse env w response lb"

fun runTasks :: "dr_env \<Rightarrow> world \<Rightarrow> task list \<Rightarrow> world" where
  "runTasks env w [] = w"
| "runTasks env w (t # ts) = runTasks env (runTask env w t) ts"

definition notified :: "dr_env \<Rightarrow> world \<Rightarrow> Broadcast list \<Rightarrow> world" where
  "notified env w mb = (case drain env 0 w [] mb of (w', ts, mb', stopped) \<Rightarrow> runTasks env w' ts)"

fun isRun :: "dr_call \<Rightarrow> bool" where
  "isRun (CallRun rid) = True"
| "isRun c = False"

fun isCreateRequest :: "dr_call \<Rightarrow> bool" where
  "isCreateRequest (CallCreateRequest rid tx) = True"
| "isCreateRequest c = False"


section \<open>Predicates of the statements and inputs of the examples\<close>

text \<open>Predicates on chain sets used in the statements.\<close>

definition registry_ok :: "'c chain_env \<Rightarrow> 'c chainSet \<Rightarrow> bool" where
  "registry_ok env cll \<longleftrightarrow>
     (\<forall>k c. Mapping.lookup (chains cll) k = Some c \<longrightarrow>
        (\<exists>ch. c = Some ch \<and> String (chain_ID env ch) = k))"

text \<open>
  Modelled from the spec: \<open>newChain\<close> is not among the sources. When it returns no
  error it returns a chain, and the chain's network identifier is that of the
  persisted row it was built from.
\<close>

definition constructs :: "'c chain_env \<Rightarrow> bool" where
  "constructs env \<longleftrightarrow>
     (\<forall>d c. newChain env d = (c, None) \<longrightarrow> (\<exists>ch. c = Some ch \<and> chain_ID env ch = ID d))"



text \<open>A chain object is its identifier here; every collaborator succeeds.\<close>

definition env0 :: "int chain_env" where
  "env0 = \<lparr>newChain = (\<lambda>d. (Some (ID d), None)),
           chainStart = (\<lambda>c. Done None),
           chainClose = (\<lambda>c. Done None),
           chain_ID = (\<lambda>c. c),
           UpdateChain = (\<lambda>i e cfg. (\<lparr>ID = i, Cfg = cfg, Enabled = e, Nodes = []\<rparr>, None)),
           NodesForChain = (\<lambda>i off lim. ([], 0, None))\<rparr>"

text \<open>
  The same, with a constructor that finds no primary node: it returns no chain and
  \<open>ErrNoPrimaryNode\<close>, wrapped. \<open>sr\<close> is what \<open>Start\<close> does on the nil chain.
\<close>

definition env_no_primary :: "call_result \<Rightarrow> int chain_env" where
  "env_no_primary sr =
     env0\<lparr>newChain := (\<lambda>d. (None, Some (ErrWrap ''failed to instantiate eth client'' ErrNoPrimaryNode))),
          chainStart := (\<lambda>c. case c of None \<Rightarrow> sr | Some ch \<Rightarrow> Done None)\<rparr>"

definition opts0 :: ChainSetOpts where
  "opts0 = \<lparr>Config = Some \<lparr>DefaultChainID = Some 42, EVMDisabled = False\<rparr>, Logger = Some ()\<rparr>"

definition db42 :: types_Chain where
  "db42 = \<lparr>ID = 42, Cfg = [], Enabled = True, Nodes = []\<rparr>"

definition cll_empty :: "int chainSet" where
  "cll_empty = \<lparr>defaultID = Some 42, chains = Mapping.empty\<rparr>"

definition cll42 :: "int chainSet" where
  "cll42 = \<lparr>defaultID = Some 42, chains = Mapping.update (String 42) (Some 42) Mapping.empty\<rparr>"

definition cll42_no_default :: "int chainSet" where
  "cll42_no_default = \<lparr>defaultID = None, chains = Mapping.update (String 42) (Some 42) Mapping.empty\<rparr>"


text \<open>Nodes that expect the chain identifier 5.\<close>

definition node_closed :: sendOnlyNode where
  "node_closed = \<lparr>state = SendOnlyNodeStateClosed, chainID = 5, name = ''n1'', started = False\<rparr>"

definition node_dialed :: sendOnlyNode where
  "node_dialed = \<lparr>state = SendOnlyNodeStateDialed, chainID = 5, name = ''n1'', started = True\<rparr>"

text \<open>Calls that record an outcome on a request.\<close>

fun isSetOutcome :: "dr_call \<Rightarrow> bool" where
  "isSetOutcome (CallSetError rid run kind p) = True"
| "isSetOutcome (CallSetResult rid run bs) = True"
| "isSetOutcome c = False"

text \<open>
  A listener whose collaborators all succeed; the pipeline run 1 saved the task outputs
  \<open>res\<close> (for \<open>parse_result\<close>) and \<open>err\<close> (for \<open>parse_error\<close>).
\<close>

definition env_dr :: "string \<Rightarrow> string \<Rightarrow> dr_env" where
  "env_dr res err =
     \<lparr>chStop = (\<lambda>n. False),
      WasAlreadyConsumed_fails = (\<lambda>lb. None),
      MarkConsumed_fails = (\<lambda>lb. None),
      CreateRequest = (\<lambda>rid tx. None),
      Run = (\<lambda>request. \<lparr>run_ID = 1, fn_called = True, run_err = None\<rparr>),
      FindTaskResultByRunIDAndTaskName =
        (\<lambda>run task. (if task = ParseResultTaskName then res else err, None)),
      SetError = (\<lambda>rid run kind p. None),
      SetResult = (\<lambda>rid run bs. None),
      SetConfirmed = (\<lambda>rid. None)\<rparr>"

definition req0 :: OCR2DROracleOracleRequest where
  "req0 = \<lparr>RequestId = 7, Data = [], Raw_TxHash = 9\<rparr>"

definition lb0 :: Broadcast where
  "lb0 = \<lparr>BlockHash = 3, LogIndex = 0, DecodedLog = OracleRequestLog req0\<rparr>"

definition w0 :: world where
  "w0 = \<lparr>consumed = [], calls = []\<rparr>"

definition quoted_empty :: string where
  "quoted_empty = [dquote, dquote]"

definition lb1 :: Broadcast where
  "lb1 = \<lparr>BlockHash = 3, LogIndex = 1,
           DecodedLog = OracleResponseLog \<lparr>Response_RequestId = 7\<rparr>\<rparr>"

text \<open>The same listener, but the broadcaster cannot tell whether \<open>lb0\<close> was consumed.\<close>

definition env_check_fails :: dr_env where
  "env_check_fails =
     (env_dr quoted_empty quoted_empty)
       \<lparr>WasAlreadyConsumed_fails :=
          (\<lambda>lb. if LogIndex lb = 0 then Some (ErrOther ''database unreachable'') else None)\<rparr>"

section \<open>Properties of \<open>ExtractRawBytes\<close>\<close>

lemmas hex_defs = ExtractRawBytes_def TryParseHex_def dquote_def fromHexChar_def

lemma unquoted_rejected:
  assumes "\<not> quoted input"
  shows "ExtractRawBytes input = Inl (UnableToDecodeInput input)"
proof (cases "length input < 2")
  case True
  then show ?thesis by (simp add: ExtractRawBytes_def)
next
  case False
  then have ne: "input \<noteq> []" by auto
  have "hd input = input ! 0" using ne by (simp add: hd_conv_nth)
  moreover have "last input = input ! (length input - 1)" using ne by (simp add: last_conv_nth)
  ultimately have "input ! 0 \<noteq> dquote \<or> input ! (length input - 1) \<noteq> dquote"
    using assms False by (auto simp: quoted_def)
  then show ?thesis by (auto simp: ExtractRawBytes_def)
qed

text \<open>
  C4, the input on which the claim fails. The claim says that the quoted input \<open>"0xab"\<close>
  is a decode error. Its content \<open>0xab\<close> has the even length 4, so it passes both length
  tests of \<open>ExtractRawBytes\<close> and is hex-decoded to the one byte \<open>0xAB\<close>.
\<close>

theorem ExtractRawBytes_quoted_0xab:
  "ExtractRawBytes (dquote # ''0xab'' @ [dquote]) = Inr [0xAB]"
  by (simp add: hex_defs)

text \<open>
  C4, as amended. \<open>ExtractRawBytes\<close> maps the two-character input \<open>""\<close> to the empty
  byte sequence, the quoted \<open>"0xabcd"\<close> to the two bytes \<open>0xAB, 0xCD\<close> and the quoted
  \<open>"0xab"\<close> to the one byte \<open>0xAB\<close>; the quoted \<open>"0xabc"\<close>, whose content has odd
  length, is a decode error, and so is every input that is not surrounded by
  double-quote characters.
\<close>

theorem ExtractRawBytes_shapes:
  "ExtractRawBytes [dquote, dquote] = Inr []
   \<and> ExtractRawBytes (dquote # ''0xabcd'' @ [dquote]) = Inr [0xAB, 0xCD]
   \<and> ExtractRawBytes (dquote # ''0xab'' @ [dquote]) = Inr [0xAB]
   \<and> ExtractRawBytes (dquote # ''0xabc'' @ [dquote]) = Inl (NotValidNonEmptyEvenHex ''0xabc'')
   \<and> (\<forall>input. \<not> quoted input \<longrightarrow> ExtractRawBytes input = Inl (UnableToDecodeInput input))"
proof (intro conjI allI impI)
  show "ExtractRawBytes [dquote, dquote] = Inr []"
    by (simp add: ExtractRawBytes_def)
  show "ExtractRawBytes (dquote # ''0xabcd'' @ [dquote]) = Inr [0xAB, 0xCD]"
    by (simp add: hex_defs)
  show "ExtractRawBytes (dquote # ''0xab'' @ [dquote]) = Inr [0xAB]"
    by (simp add: hex_defs)
  show "ExtractRawBytes (dquote # ''0xabc'' @ [dquote]) = Inl (NotValidNonEmptyEvenHex ''0xabc'')"
    by (simp add: ExtractRawBytes_def)
  show "ExtractRawBytes input = Inl (UnableToDecodeInput input)" if "\<not> quoted input" for input
    using that by (rule unquoted_rejected)
qed

theorem ExtractRawBytes_shapes_witness:
  "\<not> quoted ''0xabcd'' \<and> ExtractRawBytes ''0xabcd'' = Inl (UnableToDecodeInput ''0xabcd'')"
proof -
  have nq: "\<not> quoted ''0xabcd''"
    by (simp add: quoted_def dquote_def)
  from ExtractRawBytes_shapes
  have "\<forall>input. \<not> quoted input \<longrightarrow> ExtractRawBytes input = Inl (UnableToDecodeInput input)"
    by (elim conjE)
  with nq show ?thesis by blast
qed

section \<open>Properties of the chain set\<close>

lemma registry_ok_update:
  assumes "registry_ok env cll" and "String (chain_ID env ch) = k"
  shows "registry_ok env (cll\<lparr>chains := Mapping.update k (Some ch) (chains cll)\<rparr>)"
  using assms by (auto simp: registry_ok_def Mapping.lookup_update')

lemma loadChains_registry_ok:
  assumes "constructs env"
  shows "loadChains env cll err ds = (Some cll', err') \<Longrightarrow> registry_ok env cll
           \<Longrightarrow> registry_ok env cll'"
proof (induction ds arbitrary: cll err)
  case Nil
  then show ?case by simp
next
  case (Cons d ds)
  obtain c e where nc: "newChain env d = (c, e)" by (cases "newChain env d")
  show ?case
  proof (cases e)
    case (Some err2)
    with Cons nc show ?thesis by (auto simp: Let_def split: if_splits)
  next
    case None
    with nc assms obtain ch where ch: "c = Some ch" "chain_ID env ch = ID d"
      by (auto simp: constructs_def)
    have fresh: "Mapping.lookup (chains cll) (String (ID d)) = None"
      using Cons.prems(1) nc None by (auto simp: Let_def split: if_splits)
    have step: "loadChains env (cll\<lparr>chains := Mapping.update (String (ID d)) (Some ch) (chains cll)\<rparr>) err ds
                  = (Some cll', err')"
      using Cons.prems(1) nc None ch fresh by (simp add: Let_def)
    have "registry_ok env (cll\<lparr>chains := Mapping.update (String (ID d)) (Some ch) (chains cll)\<rparr>)"
      using Cons.prems(2) ch by (intro registry_ok_update) simp_all
    with step show ?thesis by (rule Cons.IH)
  qed
qed

lemma loadChains_keeps:
  "loadChains env cll err ds = (Some cll', err') \<Longrightarrow> Mapping.lookup (chains cll) k \<noteq> None
     \<Longrightarrow> Mapping.lookup (chains cll') k \<noteq> None"
proof (induction ds arbitrary: cll err)
  case Nil
  then show ?case by simp
next
  case (Cons d ds)
  obtain c e where nc: "newChain env d = (c, e)" by (cases "newChain env d")
  show ?case
  proof (cases e)
    case (Some err2)
    with Cons nc show ?thesis by (auto simp: Let_def split: if_splits)
  next
    case None
    have fresh: "Mapping.lookup (chains cll) (String (ID d)) = None"
      using Cons.prems(1) nc None by (auto simp: Let_def split: if_splits)
    have step: "loadChains env (cll\<lparr>chains := Mapping.update (String (ID d)) c (chains cll)\<rparr>) err ds
                  = (Some cll', err')"
      using Cons.prems(1) nc None fresh by (simp add: Let_def)
    have "Mapping.lookup (chains (cll\<lparr>chains := Mapping.update (String (ID d)) c (chains cll)\<rparr>)) k \<noteq> None"
      using Cons.prems(2) by (simp add: Mapping.lookup_update')
    with step show ?thesis by (rule Cons.IH)
  qed
qed

lemma loadChains_registers:
  "loadChains env cll err ds = (Some cll', err') \<Longrightarrow> d \<in> set ds \<Longrightarrow> snd (newChain env d) = None
     \<Longrightarrow> Mapping.lookup (chains cll') (String (ID d)) \<noteq> None"
proof (induction ds arbitrary: cll err)
  case Nil
  then show ?case by simp
next
  case (Cons x ds)
  obtain c e where nc: "newChain env x = (c, e)" by (cases "newChain env x")
  show ?case
  proof (cases e)
    case (Some err2)
    with Cons nc show ?thesis by (auto simp: Let_def split: if_splits)
  next
    case None
    have fresh: "Mapping.lookup (chains cll) (String (ID x)) = None"
      using Cons.prems(1) nc None by (auto simp: Let_def split: if_splits)
    let ?cll = "cll\<lparr>chains := Mapping.update (String (ID x)) c (chains cll)\<rparr>"
    have step: "loadChains env ?cll err ds = (Some cll', err')"
      using Cons.prems(1) nc None fresh by (simp add: Let_def)
    show ?thesis
    proof (cases "d = x")
      case True
      have "Mapping.lookup (chains ?cll) (String (ID d)) \<noteq> None" using True by simp
      with step show ?thesis by (rule loadChains_keeps)
    next
      case False
      with Cons.prems(2) have "d \<in> set ds" by simp
      with step show ?thesis using Cons.prems(3) by (rule Cons.IH)
    qed
  qed
qed

lemma NewChainSet_loadChains:
  assumes "NewChainSet env opts dbchains = (Some cll, errs)"
  shows "\<exists>cfg :: GeneralConfig. loadChains env \<lparr>defaultID = DefaultChainID cfg, chains = Mapping.empty\<rparr> [] dbchains
           = (Some cll, errs)"
  using assms by (auto simp: NewChainSet_def split: option.splits)

text \<open>
  C7. Let \<open>NewChainSet\<close> return a chain set, with a constructor \<open>newChain\<close> that gives
  every chain the identifier of its persisted row. Then for every persisted chain that
  was constructed (so registered at load time), \<open>Get\<close> of its identifier returns a chain
  whose identifier has the same string form; \<open>Get\<close> of an identifier whose string is
  not a key of the registry fails with the not-found error; and \<open>Get\<close> of \<open>nil\<close> is
  \<open>Default\<close>.
\<close>

theorem Get_after_NewChainSet:
  assumes "constructs env"
    and "NewChainSet env opts dbchains = (Some cll, errs)"
  shows "(\<forall>d \<in> set dbchains. snd (newChain env d) = None \<longrightarrow>
            (\<exists>ch. Get cll (Some (ID d)) = Inr (Some ch)
                  \<and> String (chain_ID env ch) = String (ID d)))
       \<and> (\<forall>ident. Mapping.lookup (chains cll) (String ident) = None \<longrightarrow>
            Get cll (Some ident) = Inl (ErrChainNotFound ident))
       \<and> Get cll None = Default cll"
proof (intro conjI ballI allI impI)
  from assms(2) obtain cfg :: GeneralConfig where
    load: "loadChains env \<lparr>defaultID = DefaultChainID cfg, chains = Mapping.empty\<rparr> [] dbchains
             = (Some cll, errs)"
    using NewChainSet_loadChains by blast
  have "registry_ok env \<lparr>defaultID = DefaultChainID cfg, chains = Mapping.empty\<rparr>"
    by (simp add: registry_ok_def)
  with assms(1) load have ok: "registry_ok env cll"
    by (rule loadChains_registry_ok)
  show "\<exists>ch. Get cll (Some (ID d)) = Inr (Some ch) \<and> String (chain_ID env ch) = String (ID d)"
    if "d \<in> set dbchains" and "snd (newChain env d) = None" for d
  proof -
    from load that have "Mapping.lookup (chains cll) (String (ID d)) \<noteq> None"
      by (rule loadChains_registers)
    then obtain c where c: "Mapping.lookup (chains cll) (String (ID d)) = Some c"
      by auto
    with ok obtain ch where "c = Some ch" "String (chain_ID env ch) = String (ID d)"
      by (auto simp: registry_ok_def)
    with c show ?thesis by simp
  qed
  show "Get cll (Some ident) = Inl (ErrChainNotFound ident)"
    if "Mapping.lookup (chains cll) (String ident) = None" for ident
    using that by simp
  show "Get cll None = Default cll"
    by simp
qed

theorem Get_after_NewChainSet_witness:
  "constructs env0 \<and> NewChainSet env0 opts0 [db42] = (Some cll42, [])
   \<and> db42 \<in> set [db42] \<and> snd (newChain env0 db42) = None
   \<and> (\<exists>ch. Get cll42 (Some (ID db42)) = Inr (Some ch)
           \<and> String (chain_ID env0 ch) = String (ID db42))
   \<and> Mapping.lookup (chains cll42) (String 7) = None
   \<and> Get cll42 (Some 7) = Inl (ErrChainNotFound 7)"
proof -
  have c: "constructs env0"
    by (simp add: constructs_def env0_def)
  have l: "NewChainSet env0 opts0 [db42] = (Some cll42, [])"
    by (simp add: NewChainSet_def checkOpts_def opts0_def env0_def db42_def cll42_def)
  have s: "snd (newChain env0 db42) = None"
    by (simp add: env0_def)
  have k: "String 7 \<noteq> String 42"
    by (simp add: String_def)
  then have a: "Mapping.lookup (chains cll42) (String 7) = None"
    by (simp add: cll42_def)
  note inst = Get_after_NewChainSet [OF c l]
  from inst
  have 1: "\<forall>d \<in> set [db42]. snd (newChain env0 d) = None \<longrightarrow>
          (\<exists>ch. Get cll42 (Some (ID d)) = Inr (Some ch)
                \<and> String (chain_ID env0 ch) = String (ID d))"
    by (elim conjE)
  from inst a have 2: "Get cll42 (Some 7) = Inl (ErrChainNotFound 7)"
    by blast
  from c l s a 1 2 show ?thesis by simp
qed

text \<open>
  C8. \<open>Default\<close> on an empty registry fails with \<open>ErrNoChains\<close>; on a registry that is
  not empty, with no default identifier, it fails with the no-default error; otherwise
  it returns what \<open>Get\<close> of the default identifier returns.
\<close>

theorem Default_cases:
  "(Mapping.is_empty (chains cll) \<longrightarrow> Default cll = Inl ErrNoChains)
   \<and> (\<not> Mapping.is_empty (chains cll) \<and> defaultID cll = None \<longrightarrow>
        Default cll = Inl ErrNoDefaultChainID)
   \<and> (\<forall>d. \<not> Mapping.is_empty (chains cll) \<and> defaultID cll = Some d \<longrightarrow>
        Default cll = Get cll (Some d))"
  by simp

theorem Default_cases_witness:
  "Mapping.is_empty (chains cll_empty) \<and> Default cll_empty = Inl ErrNoChains
   \<and> \<not> Mapping.is_empty (chains cll42_no_default) \<and> defaultID cll42_no_default = None
   \<and> Default cll42_no_default = Inl ErrNoDefaultChainID
   \<and> \<not> Mapping.is_empty (chains cll42) \<and> defaultID cll42 = Some 42
   \<and> Default cll42 = Get cll42 (Some 42) \<and> Default cll42 = Inr (Some 42)"
proof -
  have e: "Mapping.is_empty (chains cll_empty)"
    by (simp add: cll_empty_def)
  have n: "\<not> Mapping.is_empty (chains cll42_no_default) \<and> defaultID cll42_no_default = None"
    by (simp add: cll42_no_default_def)
  have d: "\<not> Mapping.is_empty (chains cll42) \<and> defaultID cll42 = Some 42"
    by (simp add: cll42_def)
  have g: "Get cll42 (Some 42) = Inr (Some 42)"
    by (simp add: cll42_def)
  from e Default_cases [of cll_empty] have 1: "Default cll_empty = Inl ErrNoChains"
    by blast
  from n Default_cases [of cll42_no_default]
  have 2: "Default cll42_no_default = Inl ErrNoDefaultChainID"
    by blast
  from d Default_cases [of cll42] have 3: "Default cll42 = Get cll42 (Some 42)"
    by blast
  from e n d g 1 2 3 show ?thesis by simp
qed

subsection \<open>\<open>Configure\<close>\<close>







text \<open>
  C3, the code on the input of the claim. The registry is empty, chain 42 is enabled and
  \<open>newChain\<close> returns no chain and \<open>ErrNoPrimaryNode\<close> (wrapped). \<open>Configure\<close> logs the
  warning and goes on: it calls \<open>Start\<close> on the chain that \<open>newChain\<close> returned, the nil
  pointer. If that call panics, so does \<open>Configure\<close>; if it returns an error,
  \<open>Configure\<close> returns it; if it returns \<open>nil\<close>, the nil chain is put into the registry
  under the identifier. In no case is the chain skipped.
\<close>

theorem Configure_no_primary_node:
  "Configure (env_no_primary sr) cll_empty 42 True [] =
     (let effs = [CallUpdateChain 42 True [], CallNodesForChain 42 0 MaxInt16,
                  CallNewChain db42, Warnf (String 42), CallStart None]
      in case sr of
           Panics \<Rightarrow> (Panicked, cll_empty, effs)
         | Done (Some err) \<Rightarrow> (Returned zero_Chain (Some err), cll_empty, effs)
         | Done None \<Rightarrow>
             (Returned db42 None,
              cll_empty\<lparr>chains := Mapping.update (String 42) None (chains cll_empty)\<rparr>, effs))"
  by (simp add: Configure_def env_no_primary_def env0_def cll_empty_def db42_def Let_def
           split: call_result.splits option.splits)

theorem Configure_no_primary_node_witness:
  "Configure (env_no_primary Panics) cll_empty 42 True [] =
     (Panicked, cll_empty,
      [CallUpdateChain 42 True [], CallNodesForChain 42 0 MaxInt16,
       CallNewChain db42, Warnf (String 42), CallStart None])
   \<and> Configure (env_no_primary (Done None)) cll_empty 42 True [] =
     (Returned db42 None,
      cll_empty\<lparr>chains := Mapping.update (String 42) None (chains cll_empty)\<rparr>,
      [CallUpdateChain 42 True [], CallNodesForChain 42 0 MaxInt16,
       CallNewChain db42, Warnf (String 42), CallStart None])"
  using Configure_no_primary_node [of Panics] Configure_no_primary_node [of "Done None"]
  by (simp add: Let_def)

section \<open>Properties of the send-only node\<close>






text \<open>
  C6. One pass of \<open>verifyLoop\<close>, by what the identity query answers. An error changes
  no state and the loop goes on with the next reception. An identity other than the
  expected one sets the state to \<open>InvalidChainID\<close> and the loop goes on, if the node is
  still started; if it is not, the loop returns and the node is unchanged. The expected
  identity sets the state to \<open>Alive\<close>, if the node is still started, and the loop
  returns: whatever is received later (\<open>evs\<close>) is not looked at.
\<close>

theorem verifyLoop_iteration:
  "verifyLoop s lg (AfterBackoff (Inl err) # evs) = verifyLoop s (lg @ [VerifyFailed err]) evs
   \<and> (i \<noteq> chainID s \<and> started s \<longrightarrow>
        verifyLoop s lg (AfterBackoff (Inr i) # evs)
          = verifyLoop (setState s SendOnlyNodeStateInvalidChainID)
              (lg @ [ChainIDMismatch i (chainID s) (name s)]) evs)
   \<and> (i \<noteq> chainID s \<and> \<not> started s \<longrightarrow>
        verifyLoop s lg (AfterBackoff (Inr i) # evs) = (s, Exited, lg))
   \<and> (started s \<longrightarrow>
        verifyLoop s lg (AfterBackoff (Inr (chainID s)) # evs)
          = (setState s SendOnlyNodeStateAlive, Exited, lg @ [NodeOnline SendOnlyNodeStateAlive]))
   \<and> (\<not> started s \<longrightarrow>
        verifyLoop s lg (AfterBackoff (Inr (chainID s)) # evs) = (s, Exited, lg))"
  by (simp add: IfStarted_def setState_def)

theorem verifyLoop_iteration_witness:
  "started node_dialed \<and> 4 \<noteq> chainID node_dialed
   \<and> verifyLoop node_dialed []
        [AfterBackoff (Inl (ErrOther ''timeout'')), AfterBackoff (Inr 4), AfterBackoff (Inr 5),
         AfterBackoff (Inr 4)]
      = (setState node_dialed SendOnlyNodeStateAlive, Exited,
         [VerifyFailed (ErrOther ''timeout''), ChainIDMismatch 4 5 ''n1'',
          NodeOnline SendOnlyNodeStateAlive])
   \<and> \<not> started node_closed
   \<and> verifyLoop node_closed [] [AfterBackoff (Inr 4), AfterBackoff (Inr 5)] = (node_closed, Exited, [])
   \<and> verifyLoop node_closed [] [AfterBackoff (Inr 5), AfterBackoff (Inr 5)] = (node_closed, Exited, [])"
proof -
  let ?s1 = "setState node_dialed SendOnlyNodeStateInvalidChainID"
  let ?e = "ErrOther ''timeout''"
  have st: "started node_dialed" "4 \<noteq> chainID node_dialed" "started ?s1" "chainID ?s1 = 5"
    "name node_dialed = ''n1''" "chainID node_dialed = 5"
    "\<not> started node_closed" "chainID node_closed = 5"
    by (simp_all add: node_dialed_def node_closed_def setState_def)
  have a: "verifyLoop node_dialed []
        [AfterBackoff (Inl ?e), AfterBackoff (Inr 4), AfterBackoff (Inr 5), AfterBackoff (Inr 4)]
      = verifyLoop node_dialed [VerifyFailed ?e]
          [AfterBackoff (Inr 4), AfterBackoff (Inr 5), AfterBackoff (Inr 4)]"
    using verifyLoop_iteration [of node_dialed "[]" ?e _ 4] by simp
  have b: "verifyLoop node_dialed [VerifyFailed ?e]
          [AfterBackoff (Inr 4), AfterBackoff (Inr 5), AfterBackoff (Inr 4)]
      = verifyLoop ?s1 [VerifyFailed ?e, ChainIDMismatch 4 5 ''n1'']
          [AfterBackoff (Inr 5), AfterBackoff (Inr 4)]"
    using verifyLoop_iteration [of node_dialed "[VerifyFailed ?e]" ?e
        "[AfterBackoff (Inr 5), AfterBackoff (Inr 4)]" 4] st
    by simp
  have c: "verifyLoop ?s1 [VerifyFailed ?e, ChainIDMismatch 4 5 ''n1'']
          [AfterBackoff (Inr 5), AfterBackoff (Inr 4)]
      = (setState ?s1 SendOnlyNodeStateAlive, Exited,
         [VerifyFailed ?e, ChainIDMismatch 4 5 ''n1'', NodeOnline SendOnlyNodeStateAlive])"
    using verifyLoop_iteration [of ?s1 "[VerifyFailed ?e, ChainIDMismatch 4 5 ''n1'']"
        ?e "[AfterBackoff (Inr 4)]" 4] st
    by simp
  have d: "setState ?s1 SendOnlyNodeStateAlive = setState node_dialed SendOnlyNodeStateAlive"
    by (simp add: setState_def)
  have e: "verifyLoop node_closed [] [AfterBackoff (Inr 4), AfterBackoff (Inr 5)]
      = (node_closed, Exited, [])"
    using verifyLoop_iteration [of node_closed "[]" ?e "[AfterBackoff (Inr 5)]" 4] st
    by simp
  have f: "verifyLoop node_closed [] [AfterBackoff (Inr 5), AfterBackoff (Inr 5)]
      = (node_closed, Exited, [])"
    using verifyLoop_iteration [of node_closed "[]" ?e "[AfterBackoff (Inr 5)]" 4] st
    by simp
  from a b c d e f st show ?thesis by simp
qed

section \<open>Properties of the request listener\<close>

lemma calls_call [simp]: "calls (call c w) = calls w @ [c]"
  by (simp add: call_def)

lemma consumed_call [simp]: "consumed (call c w) = consumed w"
  by (simp add: call_def)

lemma calls_markLogConsumed:
  "calls (markLogConsumed env w lb) =
     calls w @ CallMarkConsumed lb #
       (case MarkConsumed_fails env lb of Some err \<Rightarrow> [Errorf ''Unable to mark log consumed''] | None \<Rightarrow> [])"
  by (simp add: markLogConsumed_def MarkConsumed_def split: option.splits)

lemma consumed_markLogConsumed:
  "consumed (markLogConsumed env w lb) =
     (case MarkConsumed_fails env lb of Some err \<Rightarrow> consumed w | None \<Rightarrow> lb # consumed w)"
  by (simp add: markLogConsumed_def MarkConsumed_def split: option.splits)

lemma calls_doSetError:
  "calls (doSetError env w rid run kind p) =
     calls w @ CallSetError rid run kind p #
       (case SetError env rid run kind p of Some err \<Rightarrow> [Errorf ''Call to SetError failed''] | None \<Rightarrow> [])"
  by (simp add: doSetError_def Let_def split: option.splits)

lemma calls_doSetResult:
  "calls (doSetResult env w rid run bs) =
     calls w @ CallSetResult rid run bs #
       (case SetResult env rid run bs of Some err \<Rightarrow> [Errorf ''Call to SetResult failed''] | None \<Rightarrow> [])"
  by (simp add: doSetResult_def Let_def split: option.splits)

lemma consumed_doSetError [simp]: "consumed (doSetError env w rid run kind p) = consumed w"
  by (simp add: doSetError_def Let_def split: option.splits)

lemma consumed_doSetResult [simp]: "consumed (doSetResult env w rid run bs) = consumed w"
  by (simp add: doSetResult_def Let_def split: option.splits)

lemmas handler_calls = calls_markLogConsumed calls_doSetError calls_doSetResult

subsection \<open>\<open>handleOracleRequest\<close> and the outputs of the run\<close>

text \<open>
  The path that the code does take to \<open>SetError\<close>: the output \<open>parse_result\<close> is not
  found.
\<close>

lemma handleOracleRequest_not_found:
  assumes "CreateRequest env (RequestId request) (Raw_TxHash request) = None"
    and "run_err (Run env request) = None"
    and "FindTaskResultByRunIDAndTaskName env (run_ID (Run env request)) ParseResultTaskName
           = (bs, Some e)"
  shows "filter isSetOutcome (calls (handleOracleRequest env w request lb))
           = filter isSetOutcome (calls w)
              @ [CallSetError (RequestId request) (run_ID (Run env request)) NODE_EXCEPTION
                   (ErrorText e)]"
  using assms
  by (simp add: handleOracleRequest_def Let_def handler_calls split: option.splits)

lemma handleOracleRequest_malformed_result:
  assumes "CreateRequest env (RequestId request) (Raw_TxHash request) = None"
    and "run_err (Run env request) = None"
    and "FindTaskResultByRunIDAndTaskName env (run_ID (Run env request)) ParseResultTaskName
           = (bs, None)"
    and "ExtractRawBytes bs = Inl e"
  shows "filter isSetOutcome (calls (handleOracleRequest env w request lb))
           = filter isSetOutcome (calls w)"
  using assms
  by (simp add: handleOracleRequest_def Let_def handler_calls split: option.splits)

lemma handleOracleRequest_malformed_error:
  assumes "CreateRequest env (RequestId request) (Raw_TxHash request) = None"
    and "run_err (Run env request) = None"
    and "FindTaskResultByRunIDAndTaskName env (run_ID (Run env request)) ParseResultTaskName
           = (bs, None)"
    and "ExtractRawBytes bs = Inr res"
    and "FindTaskResultByRunIDAndTaskName env (run_ID (Run env request)) ParseErrorTaskName
           = (bs', None)"
    and "ExtractRawBytes bs' = Inl e"
  shows "filter isSetOutcome (calls (handleOracleRequest env w request lb))
           = filter isSetOutcome (calls w)"
  using assms
  by (simp add: handleOracleRequest_def Let_def handler_calls split: option.splits)

text \<open>
  C1, the code on the inputs of the claim. After a successful run, when an output is
  found but \<open>ExtractRawBytes\<close> rejects its encoding (that of \<open>parse_result\<close>, or that of
  \<open>parse_error\<close> after a well-formed \<open>parse_result\<close>), \<open>handleOracleRequest\<close> calls
  neither \<open>SetError\<close> nor \<open>SetResult\<close>: it logs and returns, and the request stays as
  \<open>CreateRequest\<close> left it.
\<close>

theorem handleOracleRequest_malformed_unrecorded:
  assumes "CreateRequest env (RequestId request) (Raw_TxHash request) = None"
    and "run_err (Run env request) = None"
    and "FindTaskResultByRunIDAndTaskName env (run_ID (Run env request)) ParseResultTaskName
           = (bs, None)"
    and "FindTaskResultByRunIDAndTaskName env (run_ID (Run env request)) ParseErrorTaskName
           = (bs', None)"
    and "isl (ExtractRawBytes bs) \<or> isl (ExtractRawBytes bs')"
  shows "filter isSetOutcome (calls (handleOracleRequest env w request lb))
           = filter isSetOutcome (calls w)"
proof (cases "ExtractRawBytes bs")
  case (Inl e)
  with assms(1-3) show ?thesis
    by (rule handleOracleRequest_malformed_result)
next
  case (Inr res)
  with assms(5) obtain e where "ExtractRawBytes bs' = Inl e"
    by (cases "ExtractRawBytes bs'") auto
  with assms(1-3) Inr assms(4) show ?thesis
    by (rule handleOracleRequest_malformed_error)
qed

theorem handleOracleRequest_malformed_unrecorded_witness:
  "isl (ExtractRawBytes ''0xabcd'')
   \<and> filter isSetOutcome (calls (handleOracleRequest (env_dr ''0xabcd'' quoted_empty) w0 req0 lb0))
      = []
   \<and> calls (handleOracleRequest (env_dr ''0xabcd'' quoted_empty) w0 req0 lb0)
      = [CallCreateRequest 7 9, CallRun 7, CallMarkConsumed lb0,
         CallFindTaskResult 1 ParseResultTaskName, Errorf ''Failed to extract result'']"
proof -
  let ?env = "env_dr ''0xabcd'' quoted_empty"
  have m: "isl (ExtractRawBytes ''0xabcd'')"
    by (simp add: ExtractRawBytes_def dquote_def)
  have e: "CreateRequest ?env (RequestId req0) (Raw_TxHash req0) = None"
    "run_err (Run ?env req0) = None"
    "FindTaskResultByRunIDAndTaskName ?env (run_ID (Run ?env req0)) ParseResultTaskName
       = (''0xabcd'', None)"
    "FindTaskResultByRunIDAndTaskName ?env (run_ID (Run ?env req0)) ParseErrorTaskName
       = (quoted_empty, None)"
    by (simp_all add: env_dr_def ParseResultTaskName_def ParseErrorTaskName_def)
  from m have "isl (ExtractRawBytes ''0xabcd'') \<or> isl (ExtractRawBytes quoted_empty)"
    by simp
  with e have "filter isSetOutcome (calls (handleOracleRequest ?env w0 req0 lb0))
      = filter isSetOutcome (calls w0)"
    by (rule handleOracleRequest_malformed_unrecorded)
  then have 1: "filter isSetOutcome (calls (handleOracleRequest ?env w0 req0 lb0)) = []"
    by (simp add: w0_def)
  have 2: "calls (handleOracleRequest ?env w0 req0 lb0)
      = [CallCreateRequest 7 9, CallRun 7, CallMarkConsumed lb0,
         CallFindTaskResult 1 ParseResultTaskName, Errorf ''Failed to extract result'']"
    by (simp add: handleOracleRequest_def Let_def handler_calls env_dr_def w0_def req0_def
          ExtractRawBytes_def dquote_def)
  from m 1 2 show ?thesis by simp
qed

subsection \<open>The dispatch loop and the consumed markers\<close>

lemma handleOracleRequest_creates_once:
  "filter isCreateRequest (calls (handleOracleRequest env w request lb))
     = filter isCreateRequest (calls w) @ [CallCreateRequest (RequestId request) (Raw_TxHash request)]"
  by (simp add: handleOracleRequest_def Let_def handler_calls
        split: option.splits sum.splits prod.splits)

lemma handleOracleRequest_runs_once:
  "filter isRun (calls (handleOracleRequest env w request lb))
     = filter isRun (calls w)
       @ (if CreateRequest env (RequestId request) (Raw_TxHash request) = None
          then [CallRun (RequestId request)] else [])"
  by (simp add: handleOracleRequest_def Let_def handler_calls
        split: option.splits sum.splits prod.splits)

lemma handleOracleRequest_consumed:
  "consumed (handleOracleRequest env w request lb) =
     (if CreateRequest env (RequestId request) (Raw_TxHash request) = None
         \<and> fn_called (Run env request) \<and> MarkConsumed_fails env lb = None
      then lb # consumed w else consumed w)"
  by (simp add: handleOracleRequest_def Let_def consumed_markLogConsumed
        split: option.splits sum.splits prod.splits)

lemma drain_consumed:
  assumes "\<not> chStop env n" and "WasAlreadyConsumed env w lb = (True, None)"
  shows "drain env n w ts (lb # mb) = drain env (Suc n) w ts mb"
  using assms by simp

lemma notified_fresh_request:
  assumes "\<not> chStop env 0" and "WasAlreadyConsumed_fails env lb = None"
    and "DecodedLog lb = OracleRequestLog request" and "lb \<notin> set (consumed w)"
  shows "notified env w [lb] = handleOracleRequest env w request lb"
  using assms by (simp add: notified_def WasAlreadyConsumed_def)

lemma notified_consumed:
  assumes "\<not> chStop env 0" and "WasAlreadyConsumed_fails env lb = None"
    and "lb \<in> set (consumed w)"
  shows "notified env w [lb] = w"
  using assms by (simp add: notified_def WasAlreadyConsumed_def)

lemma consumed_handleOracleResponse [simp]:
  "consumed (handleOracleResponse env w response lb) = consumed w"
  by (simp add: handleOracleResponse_def Let_def split: option.splits)

text \<open>Only a started request handler marks a record: what a new marker tells.\<close>

lemma notified_marked:
  assumes "lb \<notin> set (consumed w)" and "lb \<in> set (consumed (notified env w [lb]))"
  shows "\<not> chStop env 0 \<and> WasAlreadyConsumed_fails env lb = None
         \<and> (\<exists>request. DecodedLog lb = OracleRequestLog request)"
  using assms
  by (cases "DecodedLog lb"; cases "WasAlreadyConsumed_fails env lb"; cases "chStop env 0")
     (simp_all add: notified_def WasAlreadyConsumed_def)

text \<open>
  C2. A record that the dispatch loop retrieves and that the marker store reports as
  consumed is skipped: the loop goes on with the rest of the mailbox, with the same
  world (no call, no request row) and the same started handlers. Hence, when a record
  that was not yet consumed is delivered, handled and marked consumed, and then
  delivered again, the second delivery changes nothing: the two deliveries add exactly
  one pipeline run and one \<open>CreateRequest\<close> to the calls made before.
\<close>

theorem consumed_record_skipped:
  "(\<not> chStop env n \<and> WasAlreadyConsumed env w lb = (True, None) \<longrightarrow>
      drain env n w ts (lb # mb) = drain env (Suc n) w ts mb)
   \<and> (lb \<notin> set (consumed w) \<and> lb \<in> set (consumed (notified env w [lb])) \<longrightarrow>
      notified env (notified env w [lb]) [lb] = notified env w [lb]
      \<and> length (filter isRun (calls (notified env (notified env w [lb]) [lb])))
          = length (filter isRun (calls w)) + 1
      \<and> length (filter isCreateRequest (calls (notified env (notified env w [lb]) [lb])))
          = length (filter isCreateRequest (calls w)) + 1)"
proof (intro conjI impI)
  assume "\<not> chStop env n \<and> WasAlreadyConsumed env w lb = (True, None)"
  then show "drain env n w ts (lb # mb) = drain env (Suc n) w ts mb"
    by (simp add: drain_consumed)
next
  assume a: "lb \<notin> set (consumed w) \<and> lb \<in> set (consumed (notified env w [lb]))"
  let ?w1 = "notified env w [lb]"
  from a obtain request where
    m: "\<not> chStop env 0" "WasAlreadyConsumed_fails env lb = None"
       "DecodedLog lb = OracleRequestLog request"
    using notified_marked by blast
  from m a have first: "?w1 = handleOracleRequest env w request lb"
    by (intro notified_fresh_request) simp_all
  from a first have created: "CreateRequest env (RequestId request) (Raw_TxHash request) = None"
    by (auto simp: handleOracleRequest_consumed split: if_splits)
  from m a show second: "notified env ?w1 [lb] = ?w1"
    by (intro notified_consumed) simp_all
  show "length (filter isRun (calls (notified env ?w1 [lb]))) = length (filter isRun (calls w)) + 1"
    using created by (simp add: second) (simp add: first handleOracleRequest_runs_once)
  show "length (filter isCreateRequest (calls (notified env ?w1 [lb])))
          = length (filter isCreateRequest (calls w)) + 1"
    by (simp add: second) (simp add: first handleOracleRequest_creates_once)
qed

theorem consumed_record_skipped_witness:
  "lb0 \<notin> set (consumed w0)
   \<and> lb0 \<in> set (consumed (notified (env_dr quoted_empty quoted_empty) w0 [lb0]))
   \<and> WasAlreadyConsumed (env_dr quoted_empty quoted_empty)
        (notified (env_dr quoted_empty quoted_empty) w0 [lb0]) lb0 = (True, None)
   \<and> notified (env_dr quoted_empty quoted_empty)
        (notified (env_dr quoted_empty quoted_empty) w0 [lb0]) [lb0]
      = notified (env_dr quoted_empty quoted_empty) w0 [lb0]
   \<and> length (filter isRun (calls (notified (env_dr quoted_empty quoted_empty)
        (notified (env_dr quoted_empty quoted_empty) w0 [lb0]) [lb0]))) = 1
   \<and> length (filter isCreateRequest (calls (notified (env_dr quoted_empty quoted_empty)
        (notified (env_dr quoted_empty quoted_empty) w0 [lb0]) [lb0]))) = 1
   \<and> calls (notified (env_dr quoted_empty quoted_empty) w0 [lb0])
      = [CallCreateRequest 7 9, CallRun 7, CallMarkConsumed lb0,
         CallFindTaskResult 1 ParseResultTaskName, CallFindTaskResult 1 ParseErrorTaskName,
         CallSetResult 7 1 []]"
proof -
  let ?env = "env_dr quoted_empty quoted_empty"
  have e: "\<not> chStop ?env 0" "WasAlreadyConsumed_fails ?env lb0 = None"
    "DecodedLog lb0 = OracleRequestLog req0" "consumed w0 = []" "calls w0 = []"
    by (simp_all add: env_dr_def lb0_def w0_def)
  have h: "notified ?env w0 [lb0] = handleOracleRequest ?env w0 req0 lb0"
    using e by (intro notified_fresh_request) simp_all
  have c: "consumed (handleOracleRequest ?env w0 req0 lb0) = [lb0]"
    by (simp add: handleOracleRequest_consumed w0_def) (simp add: env_dr_def)
  have t: "calls (handleOracleRequest ?env w0 req0 lb0)
      = [CallCreateRequest 7 9, CallRun 7, CallMarkConsumed lb0,
         CallFindTaskResult 1 ParseResultTaskName, CallFindTaskResult 1 ParseErrorTaskName,
         CallSetResult 7 1 []]"
    by (simp add: handleOracleRequest_def Let_def handler_calls env_dr_def w0_def req0_def
          ExtractRawBytes_def quoted_empty_def ParseResultTaskName_def ParseErrorTaskName_def)
  have f: "lb0 \<notin> set (consumed w0)"
    by (simp add: e)
  have m: "lb0 \<in> set (consumed (notified ?env w0 [lb0]))"
    by (simp add: h c)
  have w: "WasAlreadyConsumed ?env (notified ?env w0 [lb0]) lb0 = (True, None)"
    using e by (simp add: WasAlreadyConsumed_def h c)
  from consumed_record_skipped [of ?env 0 w0 lb0 "[]" "[]"] f m
  have "notified ?env (notified ?env w0 [lb0]) [lb0] = notified ?env w0 [lb0]
      \<and> length (filter isRun (calls (notified ?env (notified ?env w0 [lb0]) [lb0])))
          = length (filter isRun (calls w0)) + 1
      \<and> length (filter isCreateRequest (calls (notified ?env (notified ?env w0 [lb0]) [lb0])))
          = length (filter isCreateRequest (calls w0)) + 1"
    by blast
  with e f m w show ?thesis by (simp add: h t)
qed

text \<open>
  C10. When \<open>WasAlreadyConsumed\<close> returns an error for a retrieved record, the loop
  logs it and goes on with the rest of the mailbox: the record is not put back, no
  handler is started for it, and nothing but the log line is added to the world. With
  that record alone in the mailbox, the whole effect of the notification is the log
  line.
\<close>

theorem consumed_check_error_skips:
  "(\<not> chStop env n \<and> WasAlreadyConsumed env w lb = (was, Some err) \<longrightarrow>
      drain env n w ts (lb # mb)
        = drain env (Suc n)
            (call (Errorf ''Could not determine if log was already consumed'') w) ts mb)
   \<and> (\<not> chStop env 0 \<and> WasAlreadyConsumed_fails env lb = Some err \<longrightarrow>
      notified env w [lb]
        = call (Errorf ''Could not determine if log was already consumed'') w)"
  by (simp add: notified_def WasAlreadyConsumed_def)

theorem consumed_check_error_skips_witness:
  "\<not> chStop env_check_fails 0
   \<and> WasAlreadyConsumed_fails env_check_fails lb0 = Some (ErrOther ''database unreachable'')
   \<and> notified env_check_fails w0 [lb0]
      = call (Errorf ''Could not determine if log was already consumed'') w0
   \<and> calls (notified env_check_fails w0 [lb0, lb1])
      = [Errorf ''Could not determine if log was already consumed'', CallSetConfirmed 7]"
proof -
  have e: "\<not> chStop env_check_fails 0"
    "WasAlreadyConsumed_fails env_check_fails lb0 = Some (ErrOther ''database unreachable'')"
    by (simp_all add: env_check_fails_def env_dr_def lb0_def)
  with consumed_check_error_skips [of env_check_fails 0 w0 lb0 False "ErrOther ''database unreachable''"]
  have 1: "notified env_check_fails w0 [lb0]
      = call (Errorf ''Could not determine if log was already consumed'') w0"
    by blast
  have 2: "calls (notified env_check_fails w0 [lb0, lb1])
      = [Errorf ''Could not determine if log was already consumed'', CallSetConfirmed 7]"
    by (simp add: notified_def WasAlreadyConsumed_def env_check_fails_def env_dr_def lb0_def
          lb1_def w0_def handleOracleResponse_def Let_def)
  from e 1 2 show ?thesis by simp
qed

end
